theory Spec2Isabelle
  imports Complex_Main
begin

section \<open>Python values used by the auditor\<close>

text \<open>
  A Python \<open>str\<close> is a sequence of Unicode code points; it is modelled as a list of
  natural numbers. ASCII literals are written \<open>cps ''...''\<close>; the Cyrillic literals
  of the source are given by their code points.
\<close>

type_synonym ustr = "nat list"

definition cps :: "string \<Rightarrow> ustr" where
  "cps s = map of_char s"

text \<open>
  The scalar values a YAML field can hold as far as the auditor looks at them:
  \<open>None\<close>, booleans, integers and strings.
\<close>

datatype scalar = PNone | PBool bool | PInt int | PStr ustr

text \<open>Truthiness, as tested by \<open>if x:\<close>.\<close>

fun truthy :: "scalar \<Rightarrow> bool" where
  "truthy PNone = False"
| "truthy (PBool b) = b"
| "truthy (PInt i) = (i \<noteq> 0)"
| "truthy (PStr s) = (s \<noteq> [])"

text \<open>\<open>str(x)\<close>: decimal digits of an integer, the string itself for a string.\<close>

fun digits_of :: "nat \<Rightarrow> nat \<Rightarrow> ustr" where
  "digits_of 0 n = []"
| "digits_of (Suc fuel) n =
     (if n < 10 then [48 + n] else digits_of fuel (n div 10) @ [48 + n mod 10])"

definition str_of_int :: "int \<Rightarrow> ustr" where
  "str_of_int i = (if i < 0 then 45 # digits_of (Suc (nat (- i))) (nat (- i))
                   else digits_of (Suc (nat i)) (nat i))"

fun py_str :: "scalar \<Rightarrow> ustr" where
  "py_str PNone = cps ''None''"
| "py_str (PBool b) = (if b then cps ''True'' else cps ''False'')"
| "py_str (PInt i) = str_of_int i"
| "py_str (PStr s) = s"

text \<open>\<open>d.get(key, default)\<close> on a field that may be absent.\<close>

fun get_or :: "'a option \<Rightarrow> 'a \<Rightarrow> 'a" where
  "get_or None d = d"
| "get_or (Some v) d = v"

text \<open>\<open>sub in s\<close> for strings: \<open>sub\<close> occurs in \<open>s\<close> as a contiguous block.\<close>

fun starts_with :: "ustr \<Rightarrow> ustr \<Rightarrow> bool" where
  "starts_with [] s = True"
| "starts_with (x # xs) [] = False"
| "starts_with (x # xs) (y # ys) = (x = y \<and> starts_with xs ys)"

fun str_in :: "ustr \<Rightarrow> ustr \<Rightarrow> bool" where
  "str_in sub [] = (sub = [])"
| "str_in sub (y # ys) = (starts_with sub (y # ys) \<or> str_in sub ys)"

text \<open>
  \<open>s.split(sep)\<close> for a one-character separator. The result always has at least one
  element, so \<open>[-1]\<close> on it is its last element.
\<close>

fun split_sep :: "nat \<Rightarrow> ustr \<Rightarrow> ustr list" where
  "split_sep c [] = [[]]"
| "split_sep c (x # xs) =
     (if x = c then [] # split_sep c xs
      else (case split_sep c xs of [] \<Rightarrow> [[x]] | t # ts \<Rightarrow> (x # t) # ts))"

text \<open>
  \<open>s.split()\<close>: the maximal runs of non-whitespace characters. The whitespace
  characters are those for which \<open>str.isspace\<close> holds.
\<close>

definition is_space :: "nat \<Rightarrow> bool" where
  "is_space c = ((9 \<le> c \<and> c \<le> 13) \<or> (28 \<le> c \<and> c \<le> 32) \<or> c = 133 \<or> c = 160
     \<or> c = 5760 \<or> (8192 \<le> c \<and> c \<le> 8202) \<or> c = 8232 \<or> c = 8233 \<or> c = 8239
     \<or> c = 8287 \<or> c = 12288)"

fun split_ws_aux :: "ustr \<Rightarrow> ustr \<Rightarrow> ustr list" where
  "split_ws_aux cur [] = (if cur = [] then [] else [cur])"
| "split_ws_aux cur (c # cs) =
     (if is_space c then (if cur = [] then split_ws_aux [] cs else cur # split_ws_aux [] cs)
      else split_ws_aux (cur @ [c]) cs)"

definition py_split :: "ustr \<Rightarrow> ustr list" where
  "py_split s = split_ws_aux [] s"

text \<open>
  A Python \<open>float\<close> is a real number, an infinity or a NaN. Comparisons involving
  NaN are false.
\<close>

datatype pyfloat = Fin real | PosInf | NegInf | NaN

fun float_ge :: "pyfloat \<Rightarrow> pyfloat \<Rightarrow> bool" where
  "float_ge NaN y = False"
| "float_ge x NaN = False"
| "float_ge PosInf y = True"
| "float_ge x NegInf = True"
| "float_ge NegInf y = False"
| "float_ge x PosInf = False"
| "float_ge (Fin a) (Fin b) = (a \<ge> b)"

fun float_lt :: "pyfloat \<Rightarrow> pyfloat \<Rightarrow> bool" where
  "float_lt NaN y = False"
| "float_lt x NaN = False"
| "float_lt PosInf y = False"
| "float_lt x NegInf = False"
| "float_lt NegInf y = True"
| "float_lt x PosInf = True"
| "float_lt (Fin a) (Fin b) = (a < b)"

definition float_gt :: "pyfloat \<Rightarrow> pyfloat \<Rightarrow> bool" where
  "float_gt x y = float_lt y x"

text \<open>
  The built-in functions whose full definition lies outside the repository are
  parameters of the model: \<open>str.lower\<close>, \<open>str.upper\<close>, \<open>int(s)\<close> and \<open>float(s)\<close>
  (\<open>None\<close> stands for the \<open>ValueError\<close> they raise). Every theorem that leaves
  \<open>py\<close> free holds whatever these functions are.
\<close>

record builtins =
  str_lower :: "ustr \<Rightarrow> ustr"
  str_upper :: "ustr \<Rightarrow> ustr"
  int_of_str :: "ustr \<Rightarrow> int option"
  float_of_str :: "ustr \<Rightarrow> pyfloat option"

section \<open>The dataset\<close>

text \<open>
  A dictionary whose iteration order matters is an association list in insertion
  order. A key that may be missing from a dictionary is an optional field.
\<close>

record plant_soil =
  mix_number :: "scalar option"
  alternative_mix :: "scalar option"

text \<open>The \<open>method\<close> key of the watering descriptor.\<close>

record plant_watering =
  wmethod :: "ustr option"

record plant_wick =
  recommended :: "scalar option"

record plant =
  name :: "ustr option"
  soil :: "plant_soil option"
  watering :: "plant_watering option"
  wick_watering :: "plant_wick option"

record soil_mix =
  number :: "scalar option"

text \<open>The \<open>name\<close> key of a component.\<close>

record component =
  cname :: "ustr option"

record soil_components =
  basic_substrates :: "(ustr \<times> component) list option"
  additional_components :: "(ustr \<times> component) list option"

record requirement =
  plant_name :: "ustr option"
  group :: "ustr option"
  ppm_range :: "scalar option"
  ph_range :: "scalar option"

text \<open>The \<open>plants\<close> key of a water group.\<close>

record water_group =
  group_plants :: "ustr list option"

record water_requirements =
  individual_requirements :: "(ustr \<times> requirement) list option"
  water_groups :: "(ustr \<times> water_group) list option"

section \<open>Findings\<close>

text \<open>
  Each message template of the source is one constructor; its arguments are the
  values the f-string interpolates, in the order they appear.
\<close>

datatype finding =
    NonExistentMix ustr ustr
  | AltMixInvalid ustr ustr
  | MissingWater ustr
  | UnknownPlantWater ustr
  | ComponentNotFound ustr
  | GroupMismatch ustr ustr ustr
  | NotInIndividual ustr ustr
  | WickRecommended ustr ustr
  | WickNotRecommended ustr
  | InvalidPPM ustr scalar
  | UnusualPPM ustr scalar
  | CannotParsePPM ustr scalar
  | InvalidPH ustr scalar
  | UnusualPH ustr scalar
  | CannotParsePH ustr scalar
  | DuplicateName ustr ustr ustr

section \<open>The auditor\<close>

text \<open>
  The state of \<open>PlantsDatabaseAuditor\<close> after \<open>__init__\<close>. Each collection field
  holds what the top-level key of the loaded file maps to (\<open>None\<close> when the key is
  missing, as for a file that is \<open>{}\<close>). \<open>self.fertilizers\<close> is loaded and never read;
  it is left out.
\<close>

record auditor =
  plants :: "(ustr \<times> plant) list option"
  soil_mixes :: "(ustr \<times> soil_mix) list option"
  components :: "soil_components option"
  water_reqs :: "water_requirements option"
  issues :: "finding list"
  warnings :: "finding list"

datatype error = IndexError | AttributeError

definition add_issue :: "finding \<Rightarrow> auditor \<Rightarrow> auditor" where
  "add_issue f a = a\<lparr>issues := issues a @ [f]\<rparr>"

definition add_warning :: "finding \<Rightarrow> auditor \<Rightarrow> auditor" where
  "add_warning f a = a\<lparr>warnings := warnings a @ [f]\<rparr>"


text \<open>
  A Python \<open>set\<close> is modelled as a duplicate-free list: \<open>set(xs)\<close> removes the
  duplicates, \<open>s.add(x)\<close> inserts \<open>x\<close> unless it is there, \<open>s - t\<close> keeps the
  elements of \<open>s\<close> that are not in \<open>t\<close>. Python leaves the iteration order of a set
  unspecified; the model takes the order of the list, and the theorems about loops over a
  set speak of which findings are appended and how often, never of their order.
\<close>

definition py_set :: "'a list \<Rightarrow> 'a list" where
  "py_set xs = remdups xs"

definition set_add :: "'a \<Rightarrow> 'a list \<Rightarrow> 'a list" where
  "set_add x s = (if x \<in> set s then s else s @ [x])"

definition set_diff :: "'a list \<Rightarrow> 'a list \<Rightarrow> 'a list" where
  "set_diff s t = filter (\<lambda>x. x \<notin> set t) s"

text \<open>
  A \<open>for\<close> loop whose body may raise: the first exception ends the loop and
  leaves the enclosing function, carrying the state reached so far.
\<close>

fun for_each :: "('x \<Rightarrow> auditor \<Rightarrow> (error \<times> auditor) + auditor) \<Rightarrow> 'x list \<Rightarrow> auditor
    \<Rightarrow> (error \<times> auditor) + auditor" where
  "for_each body [] a = Inr a"
| "for_each body (x # xs) a =
     (case body x a of Inl e \<Rightarrow> Inl e | Inr a' \<Rightarrow> for_each body xs a')"

subsection \<open>\<open>check_plant_soil_references\<close>\<close>

definition valid_mixes_of :: "(ustr \<times> soil_mix) list \<Rightarrow> ustr list" where
  "valid_mixes_of soil_mixes_data =
     foldl (\<lambda>valid_mixes (mix_id, mix_data).
              set_add (py_str (get_or (number mix_data) (PStr []))) valid_mixes)
       [] soil_mixes_data"

definition no_soil :: plant_soil where
  "no_soil = \<lparr>mix_number = None, alternative_mix = None\<rparr>"

text \<open>
  The body of the loop over the plants. \<open>alt_mix.split()\<close> exists for strings only
  (\<open>AttributeError\<close> otherwise), and \<open>[0]\<close> on an empty list raises \<open>IndexError\<close>.
\<close>

definition soil_body :: "ustr list \<Rightarrow> ustr \<times> plant \<Rightarrow> auditor \<Rightarrow> (error \<times> auditor) + auditor" where
  "soil_body valid_mixes kv a =
     (let plant_id = fst kv;
          plant_data = snd kv;
          soil_d = get_or (soil plant_data) no_soil;
          mix_num = py_str (get_or (mix_number soil_d) (PStr []));
          a1 = (if mix_num \<noteq> [] \<and> mix_num \<notin> set valid_mixes
                then add_issue (NonExistentMix plant_id mix_num) a else a);
          alt_mix = get_or (alternative_mix soil_d) (PStr [])
      in if truthy alt_mix then
           (case alt_mix of
              PStr s \<Rightarrow>
                (case py_split s of
                   [] \<Rightarrow> Inl (IndexError, a1)
                 | alt_num # rest \<Rightarrow>
                     Inr (if alt_num \<noteq> [] \<and> alt_num \<notin> set valid_mixes
                          then add_warning (AltMixInvalid plant_id s) a1 else a1))
            | _ \<Rightarrow> Inl (AttributeError, a1))
         else Inr a1)"

definition check_plant_soil_references :: "auditor \<Rightarrow> (error \<times> auditor) + auditor" where
  "check_plant_soil_references a =
     (let plants_data = get_or (plants a) [];
          soil_mixes_data = get_or (soil_mixes a) [];
          valid_mixes = valid_mixes_of soil_mixes_data
      in for_each (soil_body valid_mixes) plants_data a)"

subsection \<open>\<open>check_plant_water_references\<close>\<close>

definition no_water_reqs :: water_requirements where
  "no_water_reqs = \<lparr>individual_requirements = None, water_groups = None\<rparr>"

definition check_plant_water_references :: "auditor \<Rightarrow> auditor" where
  "check_plant_water_references a =
     (let plants_data = get_or (plants a) [];
          water_individual =
            get_or (individual_requirements (get_or (water_reqs a) no_water_reqs)) [];
          plants_set = py_set (map fst plants_data);
          water_set = py_set (map fst water_individual);
          missing_water = set_diff plants_set water_set;
          extra_water = set_diff water_set plants_set;
          a1 = (if missing_water \<noteq> []
                then foldl (\<lambda>s plant. add_issue (MissingWater plant) s) a missing_water
                else a)
      in if extra_water \<noteq> []
         then foldl (\<lambda>s plant. add_warning (UnknownPlantWater plant) s) a1 extra_water
         else a1)"

subsection \<open>\<open>check_soil_component_references\<close>\<close>

definition no_components :: soil_components where
  "no_components = \<lparr>basic_substrates = None, additional_components = None\<rparr>"

definition add_component_names :: "ustr list \<Rightarrow> (ustr \<times> component) list \<Rightarrow> ustr list" where
  "add_component_names valid_components category_data =
     foldl (\<lambda>vc (comp_id, comp_data).
              (let comp_name = get_or (cname comp_data) []
               in if comp_name \<noteq> [] then set_add comp_name vc else vc))
       valid_components category_data"

text \<open>
  The seven hard-coded names, by code point: "Universal'nyj grunt Premium",
  "Kokosovyj substrat", "Perlit", "Vermikulit", "Smes' dlya orhidej",
  "Drevesnyj ugol'" and "Kokos-perlit", in Cyrillic letters.
\<close>

definition expected_components :: "ustr list" where
  "expected_components =
     [[1059, 1085, 1080, 1074, 1077, 1088, 1089, 1072, 1083, 1100, 1085, 1099, 1081, 32,
       1075, 1088, 1091, 1085, 1090, 32, 80, 114, 101, 109, 105, 117, 109],
      [1050, 1086, 1082, 1086, 1089, 1086, 1074, 1099, 1081, 32,
       1089, 1091, 1073, 1089, 1090, 1088, 1072, 1090],
      [1055, 1077, 1088, 1083, 1080, 1090],
      [1042, 1077, 1088, 1084, 1080, 1082, 1091, 1083, 1080, 1090],
      [1057, 1084, 1077, 1089, 1100, 32, 1076, 1083, 1103, 32,
       1086, 1088, 1093, 1080, 1076, 1077, 1081],
      [1044, 1088, 1077, 1074, 1077, 1089, 1085, 1099, 1081, 32, 1091, 1075, 1086, 1083, 1100],
      [1050, 1086, 1082, 1086, 1089, 45, 1087, 1077, 1088, 1083, 1080, 1090]]"

definition component_body :: "builtins \<Rightarrow> ustr list \<Rightarrow> ustr \<Rightarrow> auditor \<Rightarrow> auditor" where
  "component_body py valid_components cmp a =
     (let found = list_ex (\<lambda>vc. str_in (str_lower py cmp) (str_lower py vc)) valid_components
      in if \<not> found then add_warning (ComponentNotFound cmp) a else a)"

definition check_soil_component_references :: "builtins \<Rightarrow> auditor \<Rightarrow> auditor" where
  "check_soil_component_references py a =
     (let components_data = get_or (components a) no_components;
          valid_components =
            foldl (\<lambda>vc category_data. add_component_names vc (get_or category_data []))
              [] [basic_substrates components_data, additional_components components_data]
      in foldl (\<lambda>s cmp. component_body py valid_components cmp s) a expected_components)"

subsection \<open>\<open>check_water_group_consistency\<close>\<close>

text \<open>
  The inner loop over the individual requirements, with its \<open>break\<close> at the first entry
  whose \<open>plant_name\<close> is the listed name. It returns the \<open>found\<close> flag and the state.
  \<open>95\<close> is the underscore.
\<close>

fun search_individual :: "builtins \<Rightarrow> ustr \<Rightarrow> ustr \<Rightarrow> (ustr \<times> requirement) list \<Rightarrow> auditor
    \<Rightarrow> bool \<times> auditor" where
  "search_individual py group_id pname [] a = (False, a)"
| "search_individual py group_id pname (kv # rest) a =
     (if get_or (plant_name (snd kv)) [] = pname then
        (let assigned_group = get_or (group (snd kv)) [];
             expected_group = str_upper py (last (split_sep 95 group_id))
         in (True, if assigned_group \<noteq> expected_group
                   then add_issue (GroupMismatch pname group_id assigned_group) a else a))
      else search_individual py group_id pname rest a)"

definition group_plant_body :: "builtins \<Rightarrow> (ustr \<times> requirement) list \<Rightarrow> ustr \<Rightarrow> ustr \<Rightarrow> auditor
    \<Rightarrow> auditor" where
  "group_plant_body py individual group_id pname a =
     (let r = search_individual py group_id pname individual a
      in if \<not> fst r then add_warning (NotInIndividual pname group_id) (snd r) else snd r)"

definition group_body :: "builtins \<Rightarrow> (ustr \<times> requirement) list \<Rightarrow> ustr \<times> water_group \<Rightarrow> auditor
    \<Rightarrow> auditor" where
  "group_body py individual kv a =
     (let group_id = fst kv;
          the_plants = get_or (group_plants (snd kv)) []
      in foldl (\<lambda>s pname. group_plant_body py individual group_id pname s) a the_plants)"

definition check_water_group_consistency :: "builtins \<Rightarrow> auditor \<Rightarrow> auditor" where
  "check_water_group_consistency py a =
     (let water_reqs_d = get_or (water_reqs a) no_water_reqs;
          individual = get_or (individual_requirements water_reqs_d) [];
          groups = get_or (water_groups water_reqs_d) []
      in foldl (\<lambda>s kv. group_body py individual kv s) a groups)"

subsection \<open>\<open>check_wick_watering_consistency\<close>\<close>

text \<open>
  The three keywords by code point: the wick keyword "Fitil'" with a capital first
  letter, the same word in lower case, and the manual keyword "Ruchnoj" with a capital
  first letter, in Cyrillic letters.
\<close>

definition kw_Fitil :: ustr where
  "kw_Fitil = [1060, 1080, 1090, 1080, 1083, 1100]"

definition kw_fitil :: ustr where
  "kw_fitil = [1092, 1080, 1090, 1080, 1083, 1100]"

definition kw_Ruchnoj :: ustr where
  "kw_Ruchnoj = [1056, 1091, 1095, 1085, 1086, 1081]"

definition wick_body :: "builtins \<Rightarrow> ustr \<times> plant \<Rightarrow> auditor \<Rightarrow> auditor" where
  "wick_body py kv a =
     (let plant_id = fst kv;
          plant_data = snd kv;
          wick = get_or (wick_watering plant_data) \<lparr>recommended = None\<rparr>;
          watering_method = get_or (wmethod (get_or (watering plant_data) \<lparr>wmethod = None\<rparr>)) [];
          recommended_v = get_or (recommended wick) (PBool False);
          a1 = (if truthy recommended_v \<and> \<not> str_in kw_Fitil watering_method
                   \<and> \<not> str_in kw_fitil (str_lower py watering_method)
                then add_warning (WickRecommended plant_id watering_method) a else a)
      in if \<not> truthy recommended_v \<and> recommended_v \<noteq> PNone then
           (if str_in kw_Fitil watering_method \<or> str_in kw_fitil (str_lower py watering_method)
            then (if \<not> str_in kw_Ruchnoj watering_method
                  then add_warning (WickNotRecommended plant_id) a1 else a1)
            else a1)
         else a1)"

definition check_wick_watering_consistency :: "builtins \<Rightarrow> auditor \<Rightarrow> auditor" where
  "check_wick_watering_consistency py a =
     (let plants_data = get_or (plants a) []
      in foldl (\<lambda>s kv. wick_body py kv s) a plants_data)"

subsection \<open>\<open>check_ppm_ph_ranges\<close>\<close>

text \<open>
  \<open>a, b = map(int, tokens)\<close> succeeds exactly when there are two tokens and \<open>int\<close>
  accepts both; every other case raises inside the \<open>try\<close> before anything is appended,
  and the bare \<open>except\<close> appends the "cannot parse" warning. \<open>45\<close> is the hyphen.
\<close>

definition ppm_check :: "builtins \<Rightarrow> ustr \<Rightarrow> scalar \<Rightarrow> auditor \<Rightarrow> auditor" where
  "ppm_check py plant_id ppm a =
     (if truthy ppm \<and> str_in [45] (py_str ppm) then
        (case map (int_of_str py) (split_sep 45 (py_str ppm)) of
           [Some ppm_min, Some ppm_max] \<Rightarrow>
             (let a1 = (if ppm_min \<ge> ppm_max
                        then add_issue (InvalidPPM plant_id ppm) a else a)
              in if ppm_min < 0 \<or> ppm_max > 500
                 then add_warning (UnusualPPM plant_id ppm) a1 else a1)
         | _ \<Rightarrow> add_warning (CannotParsePPM plant_id ppm) a)
      else a)"

definition ph_check :: "builtins \<Rightarrow> ustr \<Rightarrow> scalar \<Rightarrow> auditor \<Rightarrow> auditor" where
  "ph_check py plant_id ph a =
     (if truthy ph \<and> str_in [45] (py_str ph) then
        (case map (float_of_str py) (split_sep 45 (py_str ph)) of
           [Some ph_min, Some ph_max] \<Rightarrow>
             (let a1 = (if float_ge ph_min ph_max
                        then add_issue (InvalidPH plant_id ph) a else a)
              in if float_lt ph_min (Fin 4) \<or> float_gt ph_max (Fin 8)
                 then add_warning (UnusualPH plant_id ph) a1 else a1)
         | _ \<Rightarrow> add_warning (CannotParsePH plant_id ph) a)
      else a)"

definition range_body :: "builtins \<Rightarrow> ustr \<times> requirement \<Rightarrow> auditor \<Rightarrow> auditor" where
  "range_body py kv a =
     (let plant_id = fst kv;
          plant_data = snd kv;
          ppm = get_or (ppm_range plant_data) (PStr []);
          ph = get_or (ph_range plant_data) (PStr [])
      in ph_check py plant_id ph (ppm_check py plant_id ppm a))"

definition check_ppm_ph_ranges :: "builtins \<Rightarrow> auditor \<Rightarrow> auditor" where
  "check_ppm_ph_ranges py a =
     (let water_individual =
            get_or (individual_requirements (get_or (water_reqs a) no_water_reqs)) []
      in foldl (\<lambda>s kv. range_body py kv s) a water_individual)"

subsection \<open>\<open>check_duplicates_and_conflicts\<close>\<close>

text \<open>The loop state is the dictionary \<open>plant_names\<close> together with the auditor.\<close>

definition dup_body :: "ustr \<times> plant \<Rightarrow> (ustr \<rightharpoonup> ustr) \<times> auditor \<Rightarrow> (ustr \<rightharpoonup> ustr) \<times> auditor" where
  "dup_body kv st =
     (let plant_id = fst kv;
          nm = get_or (name (snd kv)) [];
          plant_names = fst st
      in case plant_names nm of
           Some earlier \<Rightarrow> (plant_names, add_warning (DuplicateName nm earlier plant_id) (snd st))
         | None \<Rightarrow> (plant_names(nm \<mapsto> plant_id), snd st))"

definition check_duplicates_and_conflicts :: "auditor \<Rightarrow> auditor" where
  "check_duplicates_and_conflicts a =
     (let plants_data = get_or (plants a) []
      in snd (foldl (\<lambda>st kv. dup_body kv st) (Map.empty, a) plants_data))"

subsection \<open>\<open>print_report\<close>, \<open>audit_all\<close> and the script\<close>

text \<open>
  \<open>print_report\<close> returns \<open>Some c\<close> when it ends in \<open>sys.exit(c)\<close> and \<open>None\<close> when it
  returns to its caller (both lists empty). What it prints is not modelled.
\<close>

definition print_report :: "auditor \<Rightarrow> nat option" where
  "print_report a =
     (if issues a = [] \<and> warnings a = [] then None
      else if issues a \<noteq> [] then Some 1 else Some 0)"

definition audit_all :: "builtins \<Rightarrow> auditor \<Rightarrow> (error \<times> auditor) + (nat option \<times> auditor)" where
  "audit_all py a =
     (case check_plant_soil_references a of
        Inl e \<Rightarrow> Inl e
      | Inr a1 \<Rightarrow>
          (let a2 = check_plant_water_references a1;
               a3 = check_soil_component_references py a2;
               a4 = check_water_group_consistency py a3;
               a5 = check_wick_watering_consistency py a4;
               a6 = check_ppm_ph_ranges py a5;
               a7 = check_duplicates_and_conflicts a6
           in Inr (print_report a7, a7)))"

text \<open>
  The auditor as \<open>__init__\<close> leaves it when the five files have loaded: the two lists
  are empty.
\<close>

definition new_auditor :: "(ustr \<times> plant) list option \<Rightarrow> (ustr \<times> soil_mix) list option
    \<Rightarrow> soil_components option \<Rightarrow> water_requirements option \<Rightarrow> auditor" where
  "new_auditor p s c w =
     \<lparr>plants = p, soil_mixes = s, components = c, water_reqs = w, issues = [], warnings = []\<rparr>"

text \<open>
  The exit status of the script: the argument of \<open>sys.exit\<close>, 0 when \<open>audit_all\<close>
  returns, and 1 when an exception leaves it (the interpreter prints the traceback and
  exits with status 1).
\<close>

fun exit_status :: "(error \<times> auditor) + (nat option \<times> auditor) \<Rightarrow> nat" where
  "exit_status (Inl e) = 1"
| "exit_status (Inr (None, a)) = 0"
| "exit_status (Inr (Some c, a)) = c"

text \<open>
  Modelled from the spec: the report's "is healthy" flag, which the source does not
  store; the spec derives it as the emptiness of the issue list of the final state.
\<close>

definition is_healthy :: "auditor \<Rightarrow> bool" where
  "is_healthy a = (issues a = [])"

text \<open>The state in which a run ended, whether by an exception or not.\<close>

fun final_state :: "(error \<times> auditor) + (nat option \<times> auditor) \<Rightarrow> auditor" where
  "final_state (Inl (e, a)) = a"
| "final_state (Inr (c, a)) = a"

section \<open>A reference instance of the built-in functions\<close>

text \<open>
  For evaluating examples: \<open>lower\<close> and \<open>upper\<close> on the Latin letters of ASCII and the
  Cyrillic block U+0400 to U+045F, \<open>int\<close> on optionally signed runs of ASCII digits
  with surrounding whitespace; on those strings they are what CPython computes.
  \<open>float_ref\<close> reads an optionally signed decimal numeral with at most one point and
  returns its exact value. CPython rounds that value to the nearest double, so the two
  agree only where the decimal is itself a double (as for the integers "10" and "9", the
  only strings \<open>float_ref\<close> is evaluated at below); elsewhere \<open>float_ref\<close> is not
  CPython's \<open>float\<close>.
\<close>

definition lower_cp :: "nat \<Rightarrow> nat" where
  "lower_cp c = (if (65 \<le> c \<and> c \<le> 90) \<or> (1040 \<le> c \<and> c \<le> 1071) then c + 32
                 else if 1024 \<le> c \<and> c \<le> 1039 then c + 80 else c)"

definition upper_cp :: "nat \<Rightarrow> nat" where
  "upper_cp c = (if (97 \<le> c \<and> c \<le> 122) \<or> (1072 \<le> c \<and> c \<le> 1103) then c - 32
                 else if 1104 \<le> c \<and> c \<le> 1119 then c - 80 else c)"

fun digits_val :: "nat \<Rightarrow> ustr \<Rightarrow> nat option" where
  "digits_val acc [] = Some acc"
| "digits_val acc (c # cs) =
     (if 48 \<le> c \<and> c \<le> 57 then digits_val (10 * acc + (c - 48)) cs else None)"

definition strip :: "ustr \<Rightarrow> ustr" where
  "strip s = rev (dropWhile is_space (rev (dropWhile is_space s)))"

definition unsigned_int :: "ustr \<Rightarrow> nat option" where
  "unsigned_int s = (if s = [] then None else digits_val 0 s)"

definition unsigned_dec :: "ustr \<Rightarrow> real option" where
  "unsigned_dec s =
     (case split_sep 46 s of
        [ip] \<Rightarrow> map_option real (unsigned_int ip)
      | [ip, fp] \<Rightarrow>
          (if ip = [] \<and> fp = [] then None
           else (case (digits_val 0 ip, digits_val 0 fp) of
                   (Some i, Some f) \<Rightarrow> Some (real i + real f / 10 ^ length fp)
                 | _ \<Rightarrow> None))
      | _ \<Rightarrow> None)"

definition int_ref :: "ustr \<Rightarrow> int option" where
  "int_ref s =
     (case strip s of
        [] \<Rightarrow> None
      | c # r \<Rightarrow>
          (if c = 45 then map_option (\<lambda>n. - int n) (unsigned_int r)
           else if c = 43 then map_option int (unsigned_int r)
           else map_option int (unsigned_int (c # r))))"

definition float_ref :: "ustr \<Rightarrow> pyfloat option" where
  "float_ref s =
     (case strip s of
        [] \<Rightarrow> None
      | c # r \<Rightarrow>
          (if c = 45 then map_option (\<lambda>x. Fin (- x)) (unsigned_dec r)
           else if c = 43 then map_option Fin (unsigned_dec r)
           else map_option Fin (unsigned_dec (c # r))))"

definition py_ref :: builtins where
  "py_ref = \<lparr>str_lower = map lower_cp, str_upper = map upper_cp,
             int_of_str = int_ref, float_of_str = float_ref\<rparr>"

section \<open>The rules in the words of the specification\<close>

text \<open>
  The water-group rule as the specification words it: the suffix of the group id
  after its last underscore, the first individual requirement whose \<open>plant_name\<close> is the
  listed name, and the issues and warnings one listed name gives rise to.
\<close>

definition group_suffix :: "ustr \<Rightarrow> ustr" where
  "group_suffix group_id = rev (takeWhile (\<lambda>c. c \<noteq> 95) (rev group_id))"

definition first_entry_named :: "ustr \<Rightarrow> (ustr \<times> requirement) list
    \<Rightarrow> (ustr \<times> requirement) option" where
  "first_entry_named pname individual =
     find (\<lambda>kv. get_or (plant_name (snd kv)) [] = pname) individual"

definition group_member_findings :: "builtins \<Rightarrow> (ustr \<times> requirement) list \<Rightarrow> ustr \<Rightarrow> ustr
    \<Rightarrow> finding list \<times> finding list" where
  "group_member_findings py individual group_id pname =
     (case first_entry_named pname individual of
        None \<Rightarrow> ([], [NotInIndividual pname group_id])
      | Some kv \<Rightarrow>
          (if get_or (group (snd kv)) [] \<noteq> str_upper py (group_suffix group_id)
           then [GroupMismatch pname group_id (get_or (group (snd kv)) [])] else [], []))"

text \<open>The pairs of a group id and a plant name it lists, in the order of the loops.\<close>

definition group_memberships :: "(ustr \<times> water_group) list \<Rightarrow> (ustr \<times> ustr) list" where
  "group_memberships groups =
     concat (map (\<lambda>kv. map (Pair (fst kv)) (get_or (group_plants (snd kv)) [])) groups)"

text \<open>
  The duplicate-name rule as the specification words it: the plant at position \<open>i\<close> gets
  a warning when an earlier plant bears its name, and the warning cites the first such
  plant.
\<close>

definition first_named :: "ustr \<Rightarrow> (ustr \<times> plant) list \<Rightarrow> ustr option" where
  "first_named nm ps = map_option fst (find (\<lambda>kv. get_or (name (snd kv)) [] = nm) ps)"

definition duplicate_warning :: "(ustr \<times> plant) list \<Rightarrow> nat \<Rightarrow> finding list" where
  "duplicate_warning ps i =
     (let nm = get_or (name (snd (ps ! i))) []
      in case first_named nm (take i ps) of
           None \<Rightarrow> []
         | Some earlier \<Rightarrow> [DuplicateName nm earlier (fst (ps ! i))])"

definition duplicate_warnings :: "(ustr \<times> plant) list \<Rightarrow> finding list" where
  "duplicate_warnings ps = concat (map (duplicate_warning ps) [0..<length ps])"

text \<open>The issues the membership check of the soil rule owes one plant.\<close>

definition mix_issues :: "ustr list \<Rightarrow> ustr \<times> plant \<Rightarrow> finding list" where
  "mix_issues valid_mixes kv =
     (let mix_num = py_str (get_or (mix_number (get_or (soil (snd kv)) no_soil)) (PStr []))
      in if mix_num \<noteq> [] \<and> mix_num \<notin> set valid_mixes
         then [NonExistentMix (fst kv) mix_num] else [])"

text \<open>
  The warnings the wick-watering rule owes one plant: the "recommended=true" warning
  when \<open>recommended\<close> is truthy and the method has no wick keyword, the
  "recommended=false" warning when \<open>recommended\<close> is falsy and not \<open>None\<close>, the method
  has the wick keyword and has not the manual keyword. \<open>recommended\<close> is read with the
  default \<open>False\<close> of the source.
\<close>

definition wick_findings :: "builtins \<Rightarrow> ustr \<times> plant \<Rightarrow> finding list" where
  "wick_findings py kv =
     (let m = get_or (wmethod (get_or (watering (snd kv)) \<lparr>wmethod = None\<rparr>)) [];
          r = get_or (recommended (get_or (wick_watering (snd kv)) \<lparr>recommended = None\<rparr>))
                (PBool False);
          has_wick = (str_in kw_Fitil m \<or> str_in kw_fitil (str_lower py m))
      in (if truthy r \<and> \<not> has_wick then [WickRecommended (fst kv) m] else [])
         @ (if \<not> truthy r \<and> r \<noteq> PNone \<and> has_wick \<and> \<not> str_in kw_Ruchnoj m
            then [WickNotRecommended (fst kv)] else []))"

section \<open>Example datasets\<close>

definition bare_plant :: plant where
  "bare_plant = \<lparr>name = None, soil = None, watering = None, wick_watering = None\<rparr>"

definition bare_req :: requirement where
  "bare_req = \<lparr>plant_name = None, group = None, ppm_range = None, ph_range = None\<rparr>"

text \<open>All five files are \<open>{}\<close>.\<close>

definition empty_auditor :: auditor where
  "empty_auditor = new_auditor None None None None"

text \<open>All files carry their top-level keys, with empty collections under them.\<close>

definition empty_collections :: auditor where
  "empty_collections =
     new_auditor (Some []) (Some [])
       (Some \<lparr>basic_substrates = Some [], additional_components = Some []\<rparr>)
       (Some \<lparr>individual_requirements = Some [], water_groups = Some []\<rparr>)"

text \<open>Plants "aloe" and "fern"; water requirements for "fern" and "ghost".\<close>

definition aloe_fern_ghost :: auditor where
  "aloe_fern_ghost =
     new_auditor (Some [(cps ''aloe'', bare_plant), (cps ''fern'', bare_plant)]) None None
       (Some \<lparr>individual_requirements = Some [(cps ''fern'', bare_req), (cps ''ghost'', bare_req)],
              water_groups = None\<rparr>)"

text \<open>One plant whose \<open>alternative_mix\<close> is a single space; nothing else.\<close>

definition blank_alt :: auditor where
  "blank_alt =
     new_auditor
       (Some [(cps ''a'', bare_plant\<lparr>soil :=
                 Some \<lparr>mix_number = None, alternative_mix = Some (PStr (cps '' ''))\<rparr>\<rparr>)])
       None None None"

text \<open>
  Two plants whose method is the capitalised wick keyword: "a" has no \<open>wick_watering\<close>
  key at all, "b" has one without a \<open>recommended\<close> key.
\<close>

definition wick_absent :: auditor where
  "wick_absent =
     new_auditor
       (Some [(cps ''a'', bare_plant\<lparr>watering := Some \<lparr>wmethod = Some kw_Fitil\<rparr>\<rparr>),
              (cps ''b'', bare_plant\<lparr>watering := Some \<lparr>wmethod = Some kw_Fitil\<rparr>,
                                     wick_watering := Some \<lparr>recommended = None\<rparr>\<rparr>)])
       None None None"

text \<open>
  Plant "a" has a one-space \<open>alternative_mix\<close>; plant "b", after it, refers to mix
  "99", and there is no soil mix.
\<close>

definition skipped_plant :: auditor where
  "skipped_plant =
     new_auditor
       (Some [(cps ''a'', bare_plant\<lparr>soil :=
                 Some \<lparr>mix_number = None, alternative_mix = Some (PStr (cps '' ''))\<rparr>\<rparr>),
              (cps ''b'', bare_plant\<lparr>soil :=
                 Some \<lparr>mix_number = Some (PStr (cps ''99'')), alternative_mix = None\<rparr>\<rparr>)])
       None None None"

text \<open>A requirement whose two ranges are reversed and above the conventional bounds.\<close>

definition reversed_ranges :: requirement where
  "reversed_ranges = bare_req\<lparr>ppm_range := Some (PStr (cps ''600-501'')),
                              ph_range := Some (PStr (cps ''10-9''))\<rparr>"

text \<open>
  A plant not recommended for wick watering whose method is "RUCHNOJ/FITIL'" in
  Cyrillic capitals: the manual keyword, a slash and the wick keyword.
\<close>

definition shouted_method :: ustr where
  "shouted_method = [1056, 1059, 1063, 1053, 1054, 1049, 47, 1060, 1048, 1058, 1048, 1051, 1068]"

definition shouting_plant :: plant where
  "shouting_plant = bare_plant\<lparr>
     watering := Some \<lparr>wmethod = Some shouted_method\<rparr>,
     wick_watering := Some \<lparr>recommended = Some (PBool False)\<rparr>\<rparr>"

text \<open>A bundle whose only plant is that one.\<close>

definition shouting_auditor :: auditor where
  "shouting_auditor = new_auditor (Some [(cps ''a'', shouting_plant)]) None None None"

text \<open>Group "water\_group\_a" lists "Pothos", whose requirement entry is in group "B".\<close>

definition pothos :: auditor where
  "pothos =
     new_auditor None None None
       (Some \<lparr>individual_requirements =
                Some [(cps ''pothos'', bare_req\<lparr>plant_name := Some (cps ''Pothos''),
                                                group := Some (cps ''B'')\<rparr>)],
              water_groups =
                Some [(cps ''water_group_a'', \<lparr>group_plants = Some [cps ''Pothos'']\<rparr>)]\<rparr>)"

text \<open>Plants A and B are both named "Rose", plant C is named "Fern".\<close>

definition rose_rose_fern :: auditor where
  "rose_rose_fern =
     new_auditor
       (Some [(cps ''A'', bare_plant\<lparr>name := Some (cps ''Rose'')\<rparr>),
              (cps ''B'', bare_plant\<lparr>name := Some (cps ''Rose'')\<rparr>),
              (cps ''C'', bare_plant\<lparr>name := Some (cps ''Fern'')\<rparr>)])
       None None None"


section \<open>Properties\<close>

subsection \<open>Auxiliary facts\<close>

lemmas rule_defs = check_plant_soil_references_def valid_mixes_of_def
  check_plant_water_references_def py_set_def set_diff_def no_water_reqs_def
  check_soil_component_references_def no_components_def add_component_names_def
  component_body_def check_water_group_consistency_def
  check_wick_watering_consistency_def check_ppm_ph_ranges_def
  check_duplicates_and_conflicts_def

lemma foldl_add_issue:
  "foldl (\<lambda>s x. add_issue (f x) s) a xs = a\<lparr>issues := issues a @ map f xs\<rparr>"
  by (induction xs arbitrary: a) (simp_all add: add_issue_def)

lemma foldl_add_warning:
  "foldl (\<lambda>s x. add_warning (f x) s) a xs = a\<lparr>warnings := warnings a @ map f xs\<rparr>"
  by (induction xs arbitrary: a) (simp_all add: add_warning_def)

lemma set_diff_props:
  "distinct s \<Longrightarrow> distinct (set_diff s t) \<and> set (set_diff s t) = set s - set t"
  by (auto simp: set_diff_def)

lemma distinct_singleton:
  assumes "distinct M" and "set M = {x}"
  shows "M = [x]"
proof -
  have "length M = 1"
    using distinct_card [OF assms(1)] assms(2) by simp
  then obtain y where "M = [y]"
    by (cases M) auto
  with assms(2) show ?thesis by simp
qed

lemmas py_ref_defs = py_ref_def int_ref_def float_ref_def strip_def unsigned_int_def
  unsigned_dec_def is_space_def lower_cp_def upper_cp_def

lemma split_sep_nonempty: "split_sep c s \<noteq> []"
  by (induction s) (auto split: list.splits)

lemma split_sep_no_sep: "c \<notin> set s \<Longrightarrow> split_sep c s = [s]"
  by (induction s) auto

lemma split_sep_two: "c \<in> set s \<Longrightarrow> \<exists>t u us. split_sep c s = t # u # us"
proof (induction s)
  case Nil
  then show ?case by simp
next
  case (Cons x xs)
  show ?case
  proof (cases "x = c")
    case True
    then show ?thesis
      using split_sep_nonempty [of c xs] by (cases "split_sep c xs") auto
  next
    case False
    with Cons.prems have "c \<in> set xs" by simp
    then obtain t u us where "split_sep c xs = t # u # us"
      using Cons.IH by auto
    with False show ?thesis by simp
  qed
qed

lemma last_split_sep_append:
  "last (split_sep c (pre @ c # suf)) = last (split_sep c suf)"
proof (induction pre)
  case Nil
  then show ?case by (simp add: split_sep_nonempty)
next
  case (Cons x pre)
  obtain t u us where two: "split_sep c (pre @ c # suf) = t # u # us"
    using split_sep_two [of c "pre @ c # suf"] by auto
  show ?case
  proof (cases "x = c")
    case True
    then show ?thesis using Cons two by simp
  next
    case False
    then show ?thesis using Cons two by simp
  qed
qed

lemma last_split_sep: "last (split_sep c s) = rev (takeWhile (\<lambda>x. x \<noteq> c) (rev s))"
proof (cases "c \<in> set s")
  case False
  then have tw: "takeWhile (\<lambda>x. x \<noteq> c) (rev s) = rev s"
    by (subst takeWhile_eq_all_conv) auto
  show ?thesis using False by (simp add: split_sep_no_sep tw)
next
  case True
  then obtain pre suf where s: "s = pre @ c # suf" and n: "c \<notin> set suf"
    by (auto dest: split_list_last)
  have "takeWhile (\<lambda>x. x \<noteq> c) (rev suf @ c # rev pre) = rev suf"
    using n by (auto simp: takeWhile_tail)
  then show ?thesis
    using s n by (simp add: last_split_sep_append split_sep_no_sep)
qed

lemma foldl_findings:
  assumes "\<And>x s. body x s = s\<lparr>issues := issues s @ F x, warnings := warnings s @ G x\<rparr>"
  shows "foldl (\<lambda>s x. body x s) a xs
     = a\<lparr>issues := issues a @ concat (map F xs), warnings := warnings a @ concat (map G xs)\<rparr>"
  by (induction xs arbitrary: a) (simp_all add: assms)

lemma search_individual_eq:
  "search_individual py group_id pname individual a
     = (first_entry_named pname individual \<noteq> None,
        a\<lparr>issues := issues a @ fst (group_member_findings py individual group_id pname)\<rparr>)"
proof (induction individual)
  case Nil
  then show ?case by (simp add: first_entry_named_def group_member_findings_def)
next
  case (Cons kv rest)
  then show ?case
    by (simp add: first_entry_named_def group_member_findings_def Let_def add_issue_def
        last_split_sep group_suffix_def)
qed

lemma group_plant_body_eq:
  "group_plant_body py individual group_id pname a
     = a\<lparr>issues := issues a @ fst (group_member_findings py individual group_id pname),
         warnings := warnings a @ snd (group_member_findings py individual group_id pname)\<rparr>"
  by (simp add: group_plant_body_def search_individual_eq Let_def add_warning_def)
     (simp add: group_member_findings_def split: option.splits)


lemma group_body_eq:
  "group_body py individual kv a
     = a\<lparr>issues := issues a @ concat (map (\<lambda>n. fst (group_member_findings py individual (fst kv) n))
                                         (get_or (group_plants (snd kv)) [])),
         warnings := warnings a @ concat (map (\<lambda>n. snd (group_member_findings py individual (fst kv) n))
                                         (get_or (group_plants (snd kv)) []))\<rparr>"
  unfolding group_body_def Let_def
  by (rule foldl_findings) (rule group_plant_body_eq)

lemma concat_memberships:
  "concat (map (\<lambda>kv. concat (map (\<lambda>n. f (fst kv) n) (get_or (group_plants (snd kv)) []))) groups)
     = concat (map (\<lambda>gn. f (fst gn) (snd gn)) (group_memberships groups))"
  by (induction groups) (simp_all add: group_memberships_def comp_def)

lemma find_snoc:
  "find P (xs @ [x]) = (case find P xs of None \<Rightarrow> (if P x then Some x else None) | Some y \<Rightarrow> Some y)"
  by (induction xs) auto

lemma first_named_snoc:
  "first_named nm (seen @ [kv])
     = (case first_named nm seen of
          None \<Rightarrow> (if get_or (name (snd kv)) [] = nm then Some (fst kv) else None)
        | Some e \<Rightarrow> Some e)"
  by (simp add: first_named_def find_snoc split: option.splits)

lemma dup_body_step:
  "dup_body kv (\<lambda>n. first_named n seen, a)
     = (\<lambda>n. first_named n (seen @ [kv]),
        a\<lparr>warnings := warnings a @ duplicate_warning (seen @ kv # rest) (length seen)\<rparr>)"
proof (cases "first_named (get_or (name (snd kv)) []) seen")
  case None
  have "(\<lambda>n. first_named n (seen @ [kv]))
          = (\<lambda>n. first_named n seen)(get_or (name (snd kv)) [] \<mapsto> fst kv)"
    using None by (auto simp: first_named_snoc fun_eq_iff split: option.splits)
  with None show ?thesis
    by (simp add: dup_body_def Let_def duplicate_warning_def)
next
  case (Some e)
  have "(\<lambda>n. first_named n (seen @ [kv])) = (\<lambda>n. first_named n seen)"
    using Some by (auto simp: first_named_snoc fun_eq_iff split: option.splits)
  with Some show ?thesis
    by (simp add: dup_body_def Let_def duplicate_warning_def add_warning_def)
qed

lemma upt_shift: "[m..<m + Suc k] = m # [Suc m..<Suc m + k]"
  by (subst upt_rec) simp

lemma dup_loop:
  "foldl (\<lambda>st kv. dup_body kv st) (\<lambda>n. first_named n seen, a) rest
     = (\<lambda>n. first_named n (seen @ rest),
        a\<lparr>warnings := warnings a
             @ concat (map (duplicate_warning (seen @ rest)) [length seen..<length seen + length rest])\<rparr>)"
proof (induction rest arbitrary: seen a)
  case Nil
  then show ?case by simp
next
  case (Cons kv rest)
  have up: "[length seen..<length seen + length (kv # rest)]
      = length seen # [length (seen @ [kv])..<length (seen @ [kv]) + length rest]"
    using upt_shift [of "length seen" "length rest"] by simp
  show ?case
    unfolding foldl_Cons dup_body_step [of kv seen a rest] up
    using Cons.IH [of "seen @ [kv]"] by simp
qed

lemma foldl_warnings:
  assumes "\<And>x s. body x s = s\<lparr>warnings := warnings s @ G x\<rparr>"
  shows "foldl (\<lambda>s x. body x s) a xs = a\<lparr>warnings := warnings a @ concat (map G xs)\<rparr>"
  by (induction xs arbitrary: a) (simp_all add: assms)

lemma wick_body_eq:
  "wick_body py kv a = a\<lparr>warnings := warnings a @ wick_findings py kv\<rparr>"
  by (simp add: wick_body_def wick_findings_def Let_def add_warning_def)

subsection \<open>The empty bundle\<close>

text \<open>
  Claim C1 says that the audit of a bundle whose five collections are empty produces no
  issue and no warning, is healthy and exits with status 0. The component rule looks
  for seven hard-coded names among the component names of the bundle; with no
  component at all none is found, so the warning list is not empty.
\<close>

theorem empty_bundle_has_warnings:
  "warnings (final_state (audit_all py_ref empty_auditor)) \<noteq> []"
  by (simp add: audit_all_def empty_auditor_def new_auditor_def rule_defs Let_def
        add_warning_def print_report_def expected_components_def)

text \<open>
  Claim C1, amended: on the empty bundle (the files being \<open>{}\<close>, or carrying empty
  collections) the audit produces no issue and exactly seven warnings, one "expected
  component not found" for each hard-coded name; the report is healthy and the exit
  status is 0. This holds whatever the built-in functions are.
\<close>

theorem empty_bundle_audit:
  "audit_all py empty_auditor
     = Inr (Some 0, empty_auditor\<lparr>warnings := map ComponentNotFound expected_components\<rparr>)
   \<and> audit_all py empty_collections
     = Inr (Some 0, empty_collections\<lparr>warnings := map ComponentNotFound expected_components\<rparr>)
   \<and> length (map ComponentNotFound expected_components) = 7
   \<and> is_healthy (final_state (audit_all py empty_auditor))
   \<and> is_healthy (final_state (audit_all py empty_collections))
   \<and> exit_status (audit_all py empty_auditor) = 0
   \<and> exit_status (audit_all py empty_collections) = 0"
proof -
  have ne: "expected_components \<noteq> []"
    by (simp add: expected_components_def)
  have len: "length expected_components = 7"
    by (simp add: expected_components_def)
  have 1: "audit_all py empty_auditor
     = Inr (Some 0, empty_auditor\<lparr>warnings := map ComponentNotFound expected_components\<rparr>)"
    using ne by (simp add: audit_all_def empty_auditor_def new_auditor_def rule_defs Let_def
        foldl_add_warning print_report_def)
  have 2: "audit_all py empty_collections
     = Inr (Some 0, empty_collections\<lparr>warnings := map ComponentNotFound expected_components\<rparr>)"
    using ne by (simp add: audit_all_def empty_collections_def new_auditor_def rule_defs Let_def
        foldl_add_warning print_report_def)
  have 3: "issues empty_auditor = []" "issues empty_collections = []"
    by (simp_all add: empty_auditor_def empty_collections_def new_auditor_def)
  show ?thesis
    by (simp add: 1 2 3 len is_healthy_def)
qed

subsection \<open>Rules that raise\<close>

text \<open>
  Claim C2 says that no rule ever raises, and in particular that the plant to soil mix
  rule returns for every value of \<open>alternative_mix\<close>. For a plant whose
  \<open>alternative_mix\<close> is a single space the string is truthy, \<open>split()\<close> returns the
  empty list and \<open>[0]\<close> raises \<open>IndexError\<close>, which nothing catches.
\<close>

theorem blank_alternative_mix_raises:
  "check_plant_soil_references blank_alt = Inl (IndexError, blank_alt)"
  by (simp add: blank_alt_def new_auditor_def bare_plant_def rule_defs soil_body_def Let_def
        py_split_def is_space_def cps_def)

text \<open>
  Claim C8 says that the exit status of the full audit is 1 exactly when an issue was
  produced. On the bundle of the previous theorem the exception leaves \<open>audit_all\<close>
  before any issue is appended, and the script exits with status 1.
\<close>

theorem blank_alternative_mix_exit_status:
  "exit_status (audit_all py_ref blank_alt) = 1
   \<and> issues (final_state (audit_all py_ref blank_alt)) = []"
  by (simp add: audit_all_def blank_alt_def new_auditor_def bare_plant_def rule_defs
        soil_body_def Let_def py_split_def is_space_def cps_def)

subsection \<open>Plants and water requirements\<close>

text \<open>
  Claim C5: the completeness rule appends exactly one "missing water requirements"
  issue for each key that is among the plants and not among the individual water
  requirements, exactly one "unknown plant" warning for each key that is only among the
  requirements, nothing when the two key sets are equal; the flagged keys are the
  symmetric difference of the two key sets.
\<close>

theorem plant_water_symmetric_difference:
  fixes a :: auditor
  defines "P \<equiv> set (map fst (get_or (plants a) []))"
  defines "W \<equiv> set (map fst
      (get_or (individual_requirements (get_or (water_reqs a) no_water_reqs)) []))"
  shows "\<exists>M E. check_plant_water_references a
           = a\<lparr>issues := issues a @ map MissingWater M,
                warnings := warnings a @ map UnknownPlantWater E\<rparr>
         \<and> distinct M \<and> set M = P - W \<and> distinct E \<and> set E = W - P
         \<and> (P = W \<longrightarrow> M = [] \<and> E = [])
         \<and> set M \<union> set E = (P - W) \<union> (W - P)"
proof -
  let ?ps = "py_set (map fst (get_or (plants a) []))"
  let ?ws = "py_set (map fst
      (get_or (individual_requirements (get_or (water_reqs a) no_water_reqs)) []))"
  let ?M = "set_diff ?ps ?ws"
  let ?E = "set_diff ?ws ?ps"
  have run: "check_plant_water_references a
           = a\<lparr>issues := issues a @ map MissingWater ?M,
                warnings := warnings a @ map UnknownPlantWater ?E\<rparr>"
    by (simp add: check_plant_water_references_def Let_def foldl_add_issue foldl_add_warning)
  have dM: "distinct ?M \<and> set ?M = P - W"
    using set_diff_props [of ?ps ?ws] by (simp add: py_set_def P_def W_def)
  have dE: "distinct ?E \<and> set ?E = W - P"
    using set_diff_props [of ?ws ?ps] by (simp add: py_set_def P_def W_def)
  have eq: "P = W \<longrightarrow> ?M = [] \<and> ?E = []"
    using dM dE by (metis Diff_cancel set_empty)
  show ?thesis
    using run dM dE eq by blast
qed

theorem plant_water_symmetric_difference_witness:
  "check_plant_water_references aloe_fern_ghost
       = aloe_fern_ghost\<lparr>issues := [MissingWater (cps ''aloe'')],
                          warnings := [UnknownPlantWater (cps ''ghost'')]\<rparr>"
proof -
  have P: "set (map fst (get_or (plants aloe_fern_ghost) [])) = {cps ''aloe'', cps ''fern''}"
    by (simp add: aloe_fern_ghost_def new_auditor_def)
  have W: "set (map fst (get_or (individual_requirements
             (get_or (water_reqs aloe_fern_ghost) no_water_reqs)) []))
           = {cps ''fern'', cps ''ghost''}"
    by (simp add: aloe_fern_ghost_def new_auditor_def)
  have D1: "{cps ''aloe'', cps ''fern''} - {cps ''fern'', cps ''ghost''} = {cps ''aloe''}"
    by (auto simp: cps_def)
  have D2: "{cps ''fern'', cps ''ghost''} - {cps ''aloe'', cps ''fern''} = {cps ''ghost''}"
    by (auto simp: cps_def)
  have I: "issues aloe_fern_ghost = []" "warnings aloe_fern_ghost = []"
    by (simp_all add: aloe_fern_ghost_def new_auditor_def)
  obtain M E where run: "check_plant_water_references aloe_fern_ghost
       = aloe_fern_ghost\<lparr>issues := issues aloe_fern_ghost @ map MissingWater M,
                          warnings := warnings aloe_fern_ghost @ map UnknownPlantWater E\<rparr>"
    and M: "distinct M" "set M = {cps ''aloe''}" and E: "distinct E" "set E = {cps ''ghost''}"
    using plant_water_symmetric_difference [of aloe_fern_ghost] unfolding P W D1 D2 by blast
  have "M = [cps ''aloe'']" using M by (rule distinct_singleton)
  moreover have "E = [cps ''ghost'']" using E by (rule distinct_singleton)
  ultimately show ?thesis using run I by simp
qed

subsection \<open>Wick watering\<close>

text \<open>
  Claim C3 says that a plant whose \<open>recommended\<close> field is absent never gets a finding
  from the wick-watering rule. The source reads the field with the default \<open>False\<close>, so
  the test \<open>recommended is not None\<close> lets the absent field through: a plant without the
  field whose method is the wick keyword gets the "recommended=false" warning.
\<close>

theorem absent_recommended_warns:
  "check_wick_watering_consistency py wick_absent
     = wick_absent\<lparr>warnings := [WickNotRecommended (cps ''a''), WickNotRecommended (cps ''b'')]\<rparr>"
  by (simp add: wick_absent_def new_auditor_def bare_plant_def rule_defs wick_body_def Let_def
        add_warning_def kw_Fitil_def kw_fitil_def kw_Ruchnoj_def)

text \<open>
  Claim C10: the wick-watering rule appends to the warnings what each plant owes, in the
  order of the plants; and for a plant whose \<open>recommended\<close> is explicitly false and whose
  method contains the wick keyword, capitalised or in any letter case once lower-cased,
  what it owes is the "recommended=false" warning unless the method contains the manual
  keyword in exactly the case of the source. The manual keyword in another letter case
  does not suppress the warning.
\<close>

theorem manual_keyword_case_sensitive:
  "check_wick_watering_consistency py a
     = a\<lparr>warnings := warnings a @ concat (map (wick_findings py) (get_or (plants a) []))\<rparr>
   \<and> (wick_watering p = Some \<lparr>recommended = Some (PBool False)\<rparr>
        \<longrightarrow> watering p = Some \<lparr>wmethod = Some m\<rparr>
        \<longrightarrow> str_in kw_Fitil m \<or> str_in kw_fitil (str_lower py m)
        \<longrightarrow> wick_findings py (pid, p)
             = (if str_in kw_Ruchnoj m then [] else [WickNotRecommended pid]))"
proof -
  have rule: "check_wick_watering_consistency py a
     = a\<lparr>warnings := warnings a @ concat (map (wick_findings py) (get_or (plants a) []))\<rparr>"
    unfolding check_wick_watering_consistency_def Let_def
    by (rule foldl_warnings) (rule wick_body_eq)
  have split: "wick_findings py (pid, p)
             = (if str_in kw_Ruchnoj m then [] else [WickNotRecommended pid])"
    if "wick_watering p = Some \<lparr>recommended = Some (PBool False)\<rparr>"
      and "watering p = Some \<lparr>wmethod = Some m\<rparr>"
      and "str_in kw_Fitil m \<or> str_in kw_fitil (str_lower py m)"
    using that by (auto simp: wick_findings_def Let_def)
  show ?thesis
    using rule split by blast
qed

theorem manual_keyword_case_sensitive_witness:
  "\<not> str_in kw_Fitil shouted_method
   \<and> str_in kw_fitil (str_lower py_ref shouted_method)
   \<and> \<not> str_in kw_Ruchnoj shouted_method
   \<and> str_in (str_lower py_ref kw_Ruchnoj) (str_lower py_ref shouted_method)
   \<and> check_wick_watering_consistency py_ref shouting_auditor
       = shouting_auditor\<lparr>warnings := [WickNotRecommended (cps ''a'')]\<rparr>"
proof -
  have 1: "wick_watering shouting_plant = Some \<lparr>recommended = Some (PBool False)\<rparr>"
    by (simp add: shouting_plant_def bare_plant_def)
  have 2: "watering shouting_plant = Some \<lparr>wmethod = Some shouted_method\<rparr>"
    by (simp add: shouting_plant_def bare_plant_def)
  have 3: "str_in kw_fitil (str_lower py_ref shouted_method)"
    by (simp add: kw_fitil_def shouted_method_def py_ref_defs)
  have 4: "\<not> str_in kw_Ruchnoj shouted_method"
    by (simp add: kw_Ruchnoj_def shouted_method_def)
  have 5: "\<not> str_in kw_Fitil shouted_method"
    by (simp add: kw_Fitil_def shouted_method_def)
  have 6: "str_in (str_lower py_ref kw_Ruchnoj) (str_lower py_ref shouted_method)"
    by (simp add: kw_Ruchnoj_def shouted_method_def py_ref_defs)
  have 7: "warnings shouting_auditor = []" "get_or (plants shouting_auditor) [] = [(cps ''a'', shouting_plant)]"
    by (simp_all add: shouting_auditor_def new_auditor_def)
  from 3 have w: "str_in kw_Fitil shouted_method \<or> str_in kw_fitil (str_lower py_ref shouted_method)"
    by simp
  have f: "wick_findings py_ref (cps ''a'', shouting_plant) = [WickNotRecommended (cps ''a'')]"
    using manual_keyword_case_sensitive [of py_ref shouting_auditor shouting_plant shouted_method "cps ''a''"] 1 2 w 4
    by simp
  have r: "check_wick_watering_consistency py_ref shouting_auditor
     = shouting_auditor\<lparr>warnings := warnings shouting_auditor
         @ concat (map (wick_findings py_ref) (get_or (plants shouting_auditor) []))\<rparr>"
    using manual_keyword_case_sensitive [of py_ref shouting_auditor shouting_plant shouted_method "cps ''a''"] by blast
  show ?thesis
    using r f 3 4 5 6 7 by simp
qed

subsection \<open>Numeric ranges\<close>

lemma ppm_check_shape:
  "\<exists>I W. (\<forall>a. ppm_check py pid ppm a = a\<lparr>issues := issues a @ I, warnings := warnings a @ W\<rparr>)
       \<and> length I \<le> 1 \<and> length W \<le> 1"
proof (cases "truthy ppm \<and> str_in [45] (py_str ppm)")
  case False
  then have "\<forall>a. ppm_check py pid ppm a
      = a\<lparr>issues := issues a @ [], warnings := warnings a @ []\<rparr>"
    by (auto simp: ppm_check_def)
  then show ?thesis by (intro exI [of _ "[]"]) simp
next
  case guard: True
  show ?thesis
  proof (cases "\<exists>lo hi. map (int_of_str py) (split_sep 45 (py_str ppm)) = [Some lo, Some hi]")
    case False
    then have "\<forall>a. ppm_check py pid ppm a
        = a\<lparr>issues := issues a @ [], warnings := warnings a @ [CannotParsePPM pid ppm]\<rparr>"
      using guard
      by (auto simp: ppm_check_def add_warning_def split: list.splits option.splits)
    then show ?thesis
      by (intro exI [of _ "[]"] exI [of _ "[CannotParsePPM pid ppm]"]) simp
  next
    case True
    then obtain lo hi where
      p: "map (int_of_str py) (split_sep 45 (py_str ppm)) = [Some lo, Some hi]" by auto
    let ?I = "if lo \<ge> hi then [InvalidPPM pid ppm] else []"
    let ?W = "if lo < 0 \<or> hi > 500 then [UnusualPPM pid ppm] else []"
    have "\<forall>a. ppm_check py pid ppm a
        = a\<lparr>issues := issues a @ ?I, warnings := warnings a @ ?W\<rparr>"
      using guard p by (simp add: ppm_check_def add_warning_def add_issue_def Let_def)
    then show ?thesis
      by (intro exI [of _ ?I] exI [of _ ?W]) simp
  qed
qed

lemma ph_check_shape:
  "\<exists>I W. (\<forall>a. ph_check py pid ph a = a\<lparr>issues := issues a @ I, warnings := warnings a @ W\<rparr>)
       \<and> length I \<le> 1 \<and> length W \<le> 1"
proof (cases "truthy ph \<and> str_in [45] (py_str ph)")
  case False
  then have "\<forall>a. ph_check py pid ph a
      = a\<lparr>issues := issues a @ [], warnings := warnings a @ []\<rparr>"
    by (auto simp: ph_check_def)
  then show ?thesis by (intro exI [of _ "[]"]) simp
next
  case guard: True
  show ?thesis
  proof (cases "\<exists>lo hi. map (float_of_str py) (split_sep 45 (py_str ph)) = [Some lo, Some hi]")
    case False
    then have "\<forall>a. ph_check py pid ph a
        = a\<lparr>issues := issues a @ [], warnings := warnings a @ [CannotParsePH pid ph]\<rparr>"
      using guard
      by (auto simp: ph_check_def add_warning_def split: list.splits option.splits)
    then show ?thesis
      by (intro exI [of _ "[]"] exI [of _ "[CannotParsePH pid ph]"]) simp
  next
    case True
    then obtain lo hi where
      p: "map (float_of_str py) (split_sep 45 (py_str ph)) = [Some lo, Some hi]" by auto
    let ?I = "if float_ge lo hi then [InvalidPH pid ph] else []"
    let ?W = "if float_lt lo (Fin 4) \<or> float_gt hi (Fin 8) then [UnusualPH pid ph] else []"
    have "\<forall>a. ph_check py pid ph a
        = a\<lparr>issues := issues a @ ?I, warnings := warnings a @ ?W\<rparr>"
      using guard p by (simp add: ph_check_def add_warning_def add_issue_def Let_def)
    then show ?thesis
      by (intro exI [of _ ?I] exI [of _ ?W]) simp
  qed
qed

text \<open>
  Claim C4 says that each of the two sub-checks appends at most one finding, so that an
  entry gets at most two. The reversed-order test and the out-of-bounds test of a
  sub-check are two separate \<open>if\<close> statements: the range "600-501" gets both the issue
  and the warning, and the entry below gets four findings.
\<close>

theorem reversed_ranges_four_findings:
  "ppm_check py_ref (cps ''a'') (PStr (cps ''600-501'')) empty_auditor
     = empty_auditor\<lparr>issues := [InvalidPPM (cps ''a'') (PStr (cps ''600-501''))],
                      warnings := [UnusualPPM (cps ''a'') (PStr (cps ''600-501''))]\<rparr>
   \<and> \<not> (length (issues (range_body py_ref (cps ''a'', reversed_ranges) empty_auditor))
        + length (warnings (range_body py_ref (cps ''a'', reversed_ranges) empty_auditor)) \<le> 2)"
  by (simp add: range_body_def ppm_check_def ph_check_def reversed_ranges_def bare_req_def
       empty_auditor_def new_auditor_def add_issue_def add_warning_def Let_def float_gt_def
       py_ref_defs cps_def)

text \<open>
  Claim C4, amended: the findings a sub-check appends depend on its own field only (so
  the two sub-checks are independent), each sub-check appends at most one issue and at
  most one warning, hence at most two findings, and an entry gets at most four.
\<close>

theorem range_checks_findings:
  fixes e :: requirement
  defines "ppm \<equiv> get_or (ppm_range e) (PStr [])"
  defines "ph \<equiv> get_or (ph_range e) (PStr [])"
  shows "\<exists>I1 W1 I2 W2.
      (\<forall>a. ppm_check py pid ppm a = a\<lparr>issues := issues a @ I1, warnings := warnings a @ W1\<rparr>)
    \<and> (\<forall>a. ph_check py pid ph a = a\<lparr>issues := issues a @ I2, warnings := warnings a @ W2\<rparr>)
    \<and> (\<forall>a. range_body py (pid, e) a
            = a\<lparr>issues := issues a @ I1 @ I2, warnings := warnings a @ W1 @ W2\<rparr>)
    \<and> length I1 \<le> 1 \<and> length W1 \<le> 1 \<and> length I2 \<le> 1 \<and> length W2 \<le> 1
    \<and> length (I1 @ W1) \<le> 2 \<and> length (I2 @ W2) \<le> 2
    \<and> length (I1 @ W1 @ I2 @ W2) \<le> 4"
proof -
  obtain I1 W1 where
    1: "\<forall>a. ppm_check py pid ppm a = a\<lparr>issues := issues a @ I1, warnings := warnings a @ W1\<rparr>"
    and l1: "length I1 \<le> 1" "length W1 \<le> 1"
    using ppm_check_shape [of py pid ppm] by auto
  obtain I2 W2 where
    2: "\<forall>a. ph_check py pid ph a = a\<lparr>issues := issues a @ I2, warnings := warnings a @ W2\<rparr>"
    and l2: "length I2 \<le> 1" "length W2 \<le> 1"
    using ph_check_shape [of py pid ph] by auto
  have 3: "\<forall>a. range_body py (pid, e) a
            = a\<lparr>issues := issues a @ I1 @ I2, warnings := warnings a @ W1 @ W2\<rparr>"
    using 1 2 by (simp add: range_body_def Let_def ppm_def ph_def)
  have "length (I1 @ W1) \<le> 2" "length (I2 @ W2) \<le> 2" "length (I1 @ W1 @ I2 @ W2) \<le> 4"
    using l1 l2 by simp_all
  with 1 2 3 l1 l2 show ?thesis by blast
qed

subsection \<open>Plants and soil mixes\<close>

text \<open>
  When the soil rule returns, the issues it has appended are those of the membership
  check, one per plant whose stringified \<open>mix_number\<close> is non-empty and is not among
  the valid mix numbers, in the order of the plants.
\<close>

lemma soil_body_issues:
  "soil_body valid_mixes kv a = Inr a' \<Longrightarrow> issues a' = issues a @ mix_issues valid_mixes kv"
  by (auto simp: soil_body_def mix_issues_def Let_def add_issue_def add_warning_def
      split: if_splits scalar.splits list.splits)

lemma for_each_soil_issues:
  "for_each (soil_body valid_mixes) ps a = Inr a'
     \<Longrightarrow> issues a' = issues a @ concat (map (mix_issues valid_mixes) ps)"
proof (induction ps arbitrary: a)
  case Nil
  then show ?case by simp
next
  case (Cons kv ps)
  then obtain a1 where 1: "soil_body valid_mixes kv a = Inr a1"
    and 2: "for_each (soil_body valid_mixes) ps a1 = Inr a'"
    by (auto split: sum.splits)
  from Cons.IH [OF 2] soil_body_issues [OF 1] show ?case by simp
qed

lemma soil_rule_issues_when_it_returns:
  "check_plant_soil_references a = Inr a'
     \<Longrightarrow> issues a' = issues a
           @ concat (map (mix_issues (valid_mixes_of (get_or (soil_mixes a) [])))
                         (get_or (plants a) []))"
  by (simp add: check_plant_soil_references_def Let_def for_each_soil_issues)

text \<open>
  Claim C6 says that every plant whose \<open>mix_number\<close> is non-empty and is not a valid mix
  number gets exactly one issue from the soil rule. In the bundle below plant "b" refers
  to the missing mix "99", but the loop reaches plant "a" first, whose
  \<open>alternative_mix\<close> is a single space: the rule raises there, and no issue for "b" is
  ever appended.
\<close>

theorem later_plant_gets_no_issue:
  "check_plant_soil_references skipped_plant = Inl (IndexError, skipped_plant)
   \<and> issues skipped_plant = []
   \<and> mix_issues (valid_mixes_of (get_or (soil_mixes skipped_plant) []))
        (cps ''b'', bare_plant\<lparr>soil :=
           Some \<lparr>mix_number = Some (PStr (cps ''99'')), alternative_mix = None\<rparr>\<rparr>)
      = [NonExistentMix (cps ''b'') (cps ''99'')]"
  by (simp add: skipped_plant_def new_auditor_def bare_plant_def rule_defs soil_body_def Let_def
        py_split_def is_space_def mix_issues_def cps_def)

subsection \<open>Exit status\<close>

text \<open>
  Whenever \<open>audit_all\<close> reaches \<open>print_report\<close>, the exit status is 1 if there is an
  issue and 0 otherwise, and the report is healthy exactly when the status is 0.
\<close>

lemma exit_status_when_audit_returns:
  "audit_all py a = Inr (c, a')
     \<Longrightarrow> exit_status (audit_all py a) = (if issues a' = [] then 0 else 1)
       \<and> (is_healthy a' \<longleftrightarrow> exit_status (audit_all py a) = 0)"
  by (auto simp: audit_all_def Let_def print_report_def is_healthy_def split: sum.splits)

subsection \<open>Water groups\<close>

text \<open>
  Claim C7: for each water group and each plant name it lists, the rule takes the first
  individual requirement whose \<open>plant_name\<close> is the listed name; when there is one and
  its \<open>group\<close> differs from the upper-cased suffix of the group id after the last
  underscore, it appends exactly one issue; when there is none, exactly one warning;
  otherwise nothing. In the Pothos scenario, provided \<open>upper\<close> maps "a" to "A", exactly
  one issue is appended.
\<close>

theorem water_group_rule_refines_spec:
  fixes a :: auditor
  defines "individual \<equiv>
     get_or (individual_requirements (get_or (water_reqs a) no_water_reqs)) []"
  defines "groups \<equiv> get_or (water_groups (get_or (water_reqs a) no_water_reqs)) []"
  shows "check_water_group_consistency py a
     = a\<lparr>issues := issues a
           @ concat (map (\<lambda>gn. fst (group_member_findings py individual (fst gn) (snd gn)))
                         (group_memberships groups)),
         warnings := warnings a
           @ concat (map (\<lambda>gn. snd (group_member_findings py individual (fst gn) (snd gn)))
                         (group_memberships groups))\<rparr>
   \<and> (str_upper py (cps ''a'') = cps ''A'' \<longrightarrow>
        check_water_group_consistency py pothos
          = pothos\<lparr>issues :=
              [GroupMismatch (cps ''Pothos'') (cps ''water_group_a'') (cps ''B'')]\<rparr>)"
proof -
  have general: "check_water_group_consistency py b
     = b\<lparr>issues := issues b
           @ concat (map (\<lambda>gn. fst (group_member_findings py ind (fst gn) (snd gn)))
                         (group_memberships grp)),
         warnings := warnings b
           @ concat (map (\<lambda>gn. snd (group_member_findings py ind (fst gn) (snd gn)))
                         (group_memberships grp))\<rparr>"
    if "ind = get_or (individual_requirements (get_or (water_reqs b) no_water_reqs)) []"
      and "grp = get_or (water_groups (get_or (water_reqs b) no_water_reqs)) []"
    for b ind grp
  proof -
    have "check_water_group_consistency py b
       = b\<lparr>issues := issues b
             @ concat (map (\<lambda>kv. concat (map (\<lambda>n. fst (group_member_findings py ind (fst kv) n))
                                              (get_or (group_plants (snd kv)) []))) grp),
           warnings := warnings b
             @ concat (map (\<lambda>kv. concat (map (\<lambda>n. snd (group_member_findings py ind (fst kv) n))
                                              (get_or (group_plants (snd kv)) []))) grp)\<rparr>"
      unfolding check_water_group_consistency_def Let_def that
      by (rule foldl_findings) (rule group_body_eq)
    moreover have "concat (map (\<lambda>kv. concat (map (\<lambda>n. fst (group_member_findings py ind (fst kv) n))
                   (get_or (group_plants (snd kv)) []))) grp)
        = concat (map (\<lambda>gn. fst (group_member_findings py ind (fst gn) (snd gn)))
                   (group_memberships grp))"
      by (rule concat_memberships [of "\<lambda>g n. fst (group_member_findings py ind g n)"])
    moreover have "concat (map (\<lambda>kv. concat (map (\<lambda>n. snd (group_member_findings py ind (fst kv) n))
                   (get_or (group_plants (snd kv)) []))) grp)
        = concat (map (\<lambda>gn. snd (group_member_findings py ind (fst gn) (snd gn)))
                   (group_memberships grp))"
      by (rule concat_memberships [of "\<lambda>g n. snd (group_member_findings py ind g n)"])
    ultimately show ?thesis
      by simp
  qed
  have suffix: "group_suffix (cps ''water_group_a'') = cps ''a''"
    by (simp add: group_suffix_def cps_def)
  have scenario: "check_water_group_consistency py pothos
          = pothos\<lparr>issues :=
              [GroupMismatch (cps ''Pothos'') (cps ''water_group_a'') (cps ''B'')]\<rparr>"
    if up: "str_upper py (cps ''a'') = cps ''A''"
    using general [OF refl refl, of pothos]
    by (simp add: pothos_def new_auditor_def bare_req_def group_memberships_def
          group_member_findings_def first_entry_named_def suffix up) (simp add: cps_def)
  show ?thesis
    using general [OF individual_def [THEN meta_eq_to_obj_eq] groups_def [THEN meta_eq_to_obj_eq]]
      scenario by blast
qed

theorem water_group_rule_refines_spec_witness:
  "str_upper py_ref (cps ''a'') = cps ''A''
   \<and> check_water_group_consistency py_ref pothos
       = pothos\<lparr>issues := [GroupMismatch (cps ''Pothos'') (cps ''water_group_a'') (cps ''B'')]\<rparr>"
proof -
  have up: "str_upper py_ref (cps ''a'') = cps ''A''"
    by (simp add: py_ref_def upper_cp_def cps_def)
  with water_group_rule_refines_spec [of py_ref pothos] show ?thesis
    by blast
qed

subsection \<open>Duplicate names\<close>

text \<open>
  Claim C9: the duplicate-name rule passes once over the plants in their order, keeps
  the first plant bearing a name as the canonical one and appends exactly one warning
  for every later plant bearing that name, citing the name, the canonical plant and the
  later plant. For plants A and B named "Rose" and C named "Fern" it appends exactly one
  warning, citing A and B.
\<close>

theorem duplicate_rule_refines_spec:
  "check_duplicates_and_conflicts a
     = a\<lparr>warnings := warnings a @ duplicate_warnings (get_or (plants a) [])\<rparr>
   \<and> check_duplicates_and_conflicts rose_rose_fern
     = rose_rose_fern\<lparr>warnings := [DuplicateName (cps ''Rose'') (cps ''A'') (cps ''B'')]\<rparr>"
proof -
  have e: "Map.empty = (\<lambda>n. first_named n [])"
    by (simp add: first_named_def)
  have general: "check_duplicates_and_conflicts b
     = b\<lparr>warnings := warnings b @ duplicate_warnings (get_or (plants b) [])\<rparr>" for b
    unfolding check_duplicates_and_conflicts_def Let_def e
    using dup_loop [of "[]" b "get_or (plants b) []"]
    by (simp add: duplicate_warnings_def)
  have "duplicate_warnings (get_or (plants rose_rose_fern) [])
          = [DuplicateName (cps ''Rose'') (cps ''A'') (cps ''B'')]"
    by (simp add: rose_rose_fern_def new_auditor_def bare_plant_def duplicate_warnings_def
          duplicate_warning_def first_named_def upt_conv_Cons cps_def)
  moreover have "warnings rose_rose_fern = []"
    by (simp add: rose_rose_fern_def new_auditor_def)
  ultimately show ?thesis
    using general [of a] general [of rose_rose_fern] by simp
qed


end
